theory Spec2Isabelle
  imports Main "HOL-Library.Multiset"
begin

section \<open>Python values and exceptions\<close>

text \<open>
  The two modules of the scanner are \<^verbatim>\<open>core/report_generator.py\<close> (class
  \<^verbatim>\<open>ReportGenerator\<close>) and \<^verbatim>\<open>utils/http_client.py\<close> (class \<^verbatim>\<open>HTTPClient\<close>).
  Both work on untyped Python data, so the values a result structure is built from are a
  datatype. A dictionary is an association list in insertion order with distinct keys; a
  key is one of the hashable values that occur in scan results. \<open>PDatetime\<close> stands for an
  object that has none of the methods the code calls and that \<^verbatim>\<open>json\<close> cannot serialise.
  Strings are lists of bytes; floats are finite and given by mantissa and exponent.
\<close>

datatype pykey = KStr string | KInt int | KBool bool | KNone | KTuple "int list"

datatype pyval =
    PNone
  | PBool bool
  | PInt int
  | PFloat int int
  | PStr string
  | PList "pyval list"
  | PTuple "pyval list"
  | PDict "(pykey \<times> pyval) list"
  | PDatetime string

type_synonym pydict = "(pykey \<times> pyval) list"

datatype req_exc =
    ConnectionError | ConnectTimeout | ReadTimeout | SSLError | ProxyError
  | RetryError | TooManyRedirects | InvalidURL

datatype exn =
    ValueError string
  | TypeError string
  | AttributeError string
  | OSError string
  | RequestException req_exc
  | ConversionError string

datatype 'a outcome = Return 'a | Raise exn

text \<open>\<^verbatim>\<open>d.get(k)\<close> and \<^verbatim>\<open>d.get(k, default)\<close>.\<close>

definition dict_get :: "pydict \<Rightarrow> pykey \<Rightarrow> pyval" where
  "dict_get d k = (case map_of d k of None \<Rightarrow> PNone | Some v \<Rightarrow> v)"

definition dict_get_default :: "pydict \<Rightarrow> pykey \<Rightarrow> pyval \<Rightarrow> pyval" where
  "dict_get_default d k dflt = (case map_of d k of None \<Rightarrow> dflt | Some v \<Rightarrow> v)"

text \<open>\<^verbatim>\<open>str.lower()\<close> on the ASCII letters, the only ones a severity name has.\<close>

definition lower_char :: "char \<Rightarrow> char" where
  "lower_char c =
     (case map_of (zip ''ABCDEFGHIJKLMNOPQRSTUVWXYZ'' ''abcdefghijklmnopqrstuvwxyz'') c of
        None \<Rightarrow> c
      | Some l \<Rightarrow> l)"

definition lower :: "string \<Rightarrow> string" where
  "lower s = map lower_char s"

text \<open>
  \<^verbatim>\<open>s.replace(old, new)\<close>: every occurrence of \<open>old\<close>, scanning from the left, without
  overlaps. With an empty \<open>old\<close> Python puts \<open>new\<close> before every character and at the end.
\<close>

fun replace_from :: "string \<Rightarrow> string \<Rightarrow> string \<Rightarrow> string" where
  "replace_from old new [] = []"
| "replace_from old new (c # cs) =
     (if old \<noteq> [] \<and> take (length old) (c # cs) = old
      then new @ replace_from old new (drop (length old) (c # cs))
      else c # replace_from old new cs)"

definition str_replace :: "string \<Rightarrow> string \<Rightarrow> string \<Rightarrow> string" where
  "str_replace s old new =
     (if old = [] then new @ concat (map (\<lambda>c. c # new) s) else replace_from old new s)"

section \<open>Report generator: ordering of the vulnerabilities\<close>

text \<open>
  \<^verbatim>\<open>_sort_vulnerabilities\<close> (report_generator.py, lines 113-120):
  \<^verbatim>\<open>severity_order = {'critical': 0, 'high': 1, 'medium': 2, 'low': 3, 'info': 4}\<close> and
  the key \<^verbatim>\<open>severity_order.get(x.get('severity', 'info').lower(), 5)\<close>. The method
  \<^verbatim>\<open>lower\<close> exists on strings only: any other value stored under \<^verbatim>\<open>'severity'\<close>
  raises \<^verbatim>\<open>AttributeError\<close>.
\<close>

definition severity_order :: "(string \<times> nat) list" where
  "severity_order =
     [(''critical'', 0), (''high'', 1), (''medium'', 2), (''low'', 3), (''info'', 4)]"

definition severity_rank :: "string \<Rightarrow> nat" where
  "severity_rank s = (case map_of severity_order (lower s) of None \<Rightarrow> 5 | Some r \<Rightarrow> r)"

definition severity_key :: "pydict \<Rightarrow> exn + nat" where
  "severity_key x =
     (case dict_get_default x (KStr ''severity'') (PStr ''info'') of
        PStr s \<Rightarrow> Inr (severity_rank s)
      | _ \<Rightarrow> Inl (AttributeError ''lower''))"

text \<open>
  The key is applied to the elements of the list, whatever they are: only a dictionary has
  the method \<^verbatim>\<open>get\<close>.
\<close>

definition vuln_key :: "pyval \<Rightarrow> exn + nat" where
  "vuln_key x = (case x of PDict d \<Rightarrow> severity_key d | _ \<Rightarrow> Inl (AttributeError ''get''))"

text \<open>
  \<^verbatim>\<open>sorted(xs, key=f)\<close> first lists the elements of the iterable, then computes the
  key of every element, in order, and stops at the first key that raises; it then sorts
  the elements by their keys alone, and it is stable. The sort is written here as an
  insertion from the right that puts an element before the elements of equal key already
  placed, which are the ones after it in the input.
\<close>

definition key_value :: "pykey \<Rightarrow> pyval" where
  "key_value k =
     (case k of KStr s \<Rightarrow> PStr s | KInt i \<Rightarrow> PInt i | KBool b \<Rightarrow> PBool b | KNone \<Rightarrow> PNone
      | KTuple is \<Rightarrow> PTuple (map PInt is))"

definition py_iter :: "pyval \<Rightarrow> exn + pyval list" where
  "py_iter v =
     (case v of
        PList xs \<Rightarrow> Inr xs
      | PTuple xs \<Rightarrow> Inr xs
      | PStr s \<Rightarrow> Inr (map (\<lambda>c. PStr [c]) s)
      | PDict d \<Rightarrow> Inr (map (key_value \<circ> fst) d)
      | _ \<Rightarrow> Inl (TypeError ''object is not iterable''))"

fun keys_of :: "('a \<Rightarrow> exn + nat) \<Rightarrow> 'a list \<Rightarrow> exn + (nat \<times> 'a) list" where
  "keys_of f [] = Inr []"
| "keys_of f (x # xs) =
     (case f x of
        Inl e \<Rightarrow> Inl e
      | Inr k \<Rightarrow> (case keys_of f xs of Inl e \<Rightarrow> Inl e | Inr ps \<Rightarrow> Inr ((k, x) # ps)))"

fun insert_keyed :: "nat \<times> 'a \<Rightarrow> (nat \<times> 'a) list \<Rightarrow> (nat \<times> 'a) list" where
  "insert_keyed p [] = [p]"
| "insert_keyed p (q # qs) =
     (if fst p \<le> fst q then p # q # qs else q # insert_keyed p qs)"

fun sort_keyed :: "(nat \<times> 'a) list \<Rightarrow> (nat \<times> 'a) list" where
  "sort_keyed [] = []"
| "sort_keyed (p # ps) = insert_keyed p (sort_keyed ps)"

definition py_sorted :: "(pyval \<Rightarrow> exn + nat) \<Rightarrow> pyval \<Rightarrow> exn + pyval list" where
  "py_sorted f v =
     (case py_iter v of
        Inl e \<Rightarrow> Inl e
      | Inr xs \<Rightarrow>
          (case keys_of f xs of Inl e \<Rightarrow> Inl e | Inr ps \<Rightarrow> Inr (map snd (sort_keyed ps))))"

definition sort_vulnerabilities :: "pyval \<Rightarrow> exn + pyval list" where
  "sort_vulnerabilities vulnerabilities = py_sorted vuln_key vulnerabilities"

text \<open>
  A vulnerability record whose severity is a string or is missing, and the rank such a
  record is sorted by: what \<open>severity_key\<close> returns for it (lemma \<open>severity_key_rank\<close>).
\<close>

definition severity_is_str :: "pydict \<Rightarrow> bool" where
  "severity_is_str x =
     (case map_of x (KStr ''severity'') of
        None \<Rightarrow> True
      | Some v \<Rightarrow> (case v of PStr s \<Rightarrow> True | _ \<Rightarrow> False))"

definition vuln_rank :: "pydict \<Rightarrow> nat" where
  "vuln_rank x =
     (case map_of x (KStr ''severity'') of
        None \<Rightarrow> severity_rank ''info''
      | Some v \<Rightarrow> (case v of PStr s \<Rightarrow> severity_rank s | _ \<Rightarrow> severity_rank ''info''))"

section \<open>Report generator: files, logging and the three formats\<close>

text \<open>
  \<^verbatim>\<open>json.dump\<close> writes a JSON document. A tuple is written as an array, a key that is
  an integer, a boolean or \<^verbatim>\<open>None\<close> is written as a string, and any other key or
  object raises \<^verbatim>\<open>TypeError\<close>. The text of the file is represented by the document it
  denotes; reading the file back (\<^verbatim>\<open>json.load\<close>) gives lists, string keys and, for a
  repeated key, the last value.
\<close>

datatype json =
    JNull
  | JBool bool
  | JInt int
  | JFloat int int
  | JStr string
  | JArr "json list"
  | JObj "(string \<times> json) list"

function str_nat :: "nat \<Rightarrow> string" where
  "str_nat n =
     (if n < 10 then [''0123456789'' ! n]
      else str_nat (n div 10) @ [''0123456789'' ! (n mod 10)])"
  by pat_completeness auto
termination
  by (relation "measure (\<lambda>n. n)") auto

definition str_int :: "int \<Rightarrow> string" where
  "str_int i = (if i < 0 then CHR ''-'' # str_nat (nat (- i)) else str_nat (nat i))"

definition dump_key :: "pykey \<Rightarrow> exn + string" where
  "dump_key k =
     (case k of
        KStr s \<Rightarrow> Inr s
      | KInt i \<Rightarrow> Inr (str_int i)
      | KBool b \<Rightarrow> Inr (if b then ''true'' else ''false'')
      | KNone \<Rightarrow> Inr ''null''
      | KTuple is \<Rightarrow> Inl (TypeError ''keys must be str, int, float, bool or None''))"

fun dump :: "pyval \<Rightarrow> exn + json"
  and dump_list :: "pyval list \<Rightarrow> exn + json list"
  and dump_items :: "(pykey \<times> pyval) list \<Rightarrow> exn + (string \<times> json) list" where
  "dump PNone = Inr JNull"
| "dump (PBool b) = Inr (JBool b)"
| "dump (PInt i) = Inr (JInt i)"
| "dump (PFloat m e) = Inr (JFloat m e)"
| "dump (PStr s) = Inr (JStr s)"
| "dump (PList xs) = (case dump_list xs of Inl e \<Rightarrow> Inl e | Inr js \<Rightarrow> Inr (JArr js))"
| "dump (PTuple xs) = (case dump_list xs of Inl e \<Rightarrow> Inl e | Inr js \<Rightarrow> Inr (JArr js))"
| "dump (PDict d) = (case dump_items d of Inl e \<Rightarrow> Inl e | Inr js \<Rightarrow> Inr (JObj js))"
| "dump (PDatetime s) = Inl (TypeError ''Object of type datetime is not JSON serializable'')"
| "dump_list [] = Inr []"
| "dump_list (x # xs) =
     (case dump x of
        Inl e \<Rightarrow> Inl e
      | Inr j \<Rightarrow> (case dump_list xs of Inl e \<Rightarrow> Inl e | Inr js \<Rightarrow> Inr (j # js)))"
| "dump_items [] = Inr []"
| "dump_items (kv # kvs) =
     (case dump_key (fst kv) of
        Inl e \<Rightarrow> Inl e
      | Inr k \<Rightarrow>
          (case dump (snd kv) of
             Inl e \<Rightarrow> Inl e
           | Inr j \<Rightarrow> (case dump_items kvs of Inl e \<Rightarrow> Inl e | Inr js \<Rightarrow> Inr ((k, j) # js))))"



text \<open>
  The file system is the set of files with their contents and the set of paths at which
  \<^verbatim>\<open>open(path, 'w')\<close> fails (a missing directory, a directory, no permission); a
  write to an opened file succeeds. The logger is the list of the records it was given.
  The page that the template renders is represented by the values the template is
  instantiated with (\<^verbatim>\<open>report_data\<close>, lines 56-66); its loop
  \<^verbatim>\<open>{% for vuln in vulnerabilities %}\<close> lists the blocks in the order of that list. The
  summary paragraph is represented by the five values its text embeds.
\<close>

datatype level = DEBUG | INFO | ERROR

record summary_data =
  total_vulns :: nat
  n_critical :: pyval
  n_high :: pyval
  n_medium :: pyval
  n_low :: pyval

record report_data =
  title :: string
  generated_date :: string
  target :: pyval
  scan_duration :: pyval
  summary :: summary_data
  vulnerabilities :: "pyval list"
  severity_counts :: pyval
  urls_scanned :: pyval
  reconnaissance :: pyval

datatype content =
    JsonText json
  | JsonPartial
  | HtmlText report_data
  | PdfBytes string

record world =
  files :: "string \<Rightarrow> content option"
  denied :: "string set"
  logged :: "(level \<times> string) list"

text \<open>
  What the generator takes from its surroundings: the clock, already formatted, and the
  external conversion \<^verbatim>\<open>weasyprint.HTML(path).write_pdf\<close>, which gives the bytes of the
  PDF or raises (the import itself can fail).
\<close>

record env =
  now :: string
  weasyprint :: "content \<Rightarrow> exn + string"

definition exn_str :: "exn \<Rightarrow> string" where
  "exn_str e =
     (case e of
        ValueError m \<Rightarrow> m
      | TypeError m \<Rightarrow> m
      | AttributeError m \<Rightarrow> m
      | OSError m \<Rightarrow> m
      | RequestException k \<Rightarrow> ''request failed''
      | ConversionError m \<Rightarrow> m)"

definition log_to :: "world \<Rightarrow> level \<Rightarrow> string \<Rightarrow> world" where
  "log_to w l m = w\<lparr>logged := logged w @ [(l, m)]\<rparr>"

definition write_file :: "world \<Rightarrow> string \<Rightarrow> content \<Rightarrow> exn + world" where
  "write_file w path c =
     (if path \<in> denied w then Inl (OSError path)
      else Inr (w\<lparr>files := (files w)(path \<mapsto> c)\<rparr>))"

definition unlink :: "world \<Rightarrow> string \<Rightarrow> exn + world" where
  "unlink w path =
     (case files w path of
        None \<Rightarrow> Inl (OSError path)
      | Some c \<Rightarrow> Inr (w\<lparr>files := (files w)(path := None)\<rparr>))"

definition py_len :: "pyval \<Rightarrow> exn + nat" where
  "py_len v =
     (case v of
        PStr s \<Rightarrow> Inr (length s)
      | PList xs \<Rightarrow> Inr (length xs)
      | PTuple xs \<Rightarrow> Inr (length xs)
      | PDict d \<Rightarrow> Inr (length d)
      | _ \<Rightarrow> Inl (TypeError ''object has no len()''))"

text \<open>\<^verbatim>\<open>_generate_summary\<close> (lines 93-111).\<close>

definition generate_summary :: "pydict \<Rightarrow> exn + summary_data" where
  "generate_summary results =
     (case py_len (dict_get_default results (KStr ''vulnerabilities'') (PList [])) of
        Inl e \<Rightarrow> Inl e
      | Inr n \<Rightarrow>
          (case dict_get_default results (KStr ''severity_summary'') (PDict []) of
             PDict sc \<Rightarrow>
               Inr \<lparr>total_vulns = n,
                    n_critical = dict_get_default sc (KStr ''critical'') (PInt 0),
                    n_high = dict_get_default sc (KStr ''high'') (PInt 0),
                    n_medium = dict_get_default sc (KStr ''medium'') (PInt 0),
                    n_low = dict_get_default sc (KStr ''low'') (PInt 0)\<rparr>
           | _ \<Rightarrow> Inl (AttributeError ''get'')))"

text \<open>The dictionary \<^verbatim>\<open>report_data\<close> of \<^verbatim>\<open>_generate_html\<close>, built in the order written.\<close>

definition build_report_data :: "env \<Rightarrow> pydict \<Rightarrow> exn + report_data" where
  "build_report_data ev results =
     (case generate_summary results of
        Inl e \<Rightarrow> Inl e
      | Inr sm \<Rightarrow>
          (case sort_vulnerabilities (dict_get_default results (KStr ''vulnerabilities'') (PList [])) of
             Inl e \<Rightarrow> Inl e
           | Inr vs \<Rightarrow>
               Inr \<lparr>title = ''Deep Eye Security Assessment Report'',
                    generated_date = now ev,
                    target = dict_get results (KStr ''target''),
                    scan_duration = dict_get results (KStr ''duration''),
                    summary = sm,
                    vulnerabilities = vs,
                    severity_counts = dict_get_default results (KStr ''severity_summary'') (PDict []),
                    urls_scanned = dict_get_default results (KStr ''urls_crawled'') (PInt 0),
                    reconnaissance = dict_get_default results (KStr ''reconnaissance'') (PDict [])\<rparr>))"

text \<open>\<^verbatim>\<open>_generate_json\<close> (lines 43-48): the file is opened, and so created or emptied,
  before the first byte is encoded.\<close>

definition generate_json :: "world \<Rightarrow> pydict \<Rightarrow> string \<Rightarrow> world \<times> unit outcome" where
  "generate_json w results output_path =
     (case write_file w output_path JsonPartial of
        Inl e \<Rightarrow> (w, Raise e)
      | Inr w1 \<Rightarrow>
          (case dump (PDict results) of
             Inl e \<Rightarrow> (w1, Raise e)
           | Inr j \<Rightarrow>
               (log_to (w1\<lparr>files := (files w1)(output_path \<mapsto> JsonText j)\<rparr>) INFO
                  (''JSON report generated: '' @ output_path),
                Return ())))"

text \<open>\<^verbatim>\<open>_generate_html\<close> (lines 50-73).\<close>

definition generate_html :: "env \<Rightarrow> world \<Rightarrow> pydict \<Rightarrow> string \<Rightarrow> world \<times> unit outcome" where
  "generate_html ev w results output_path =
     (case build_report_data ev results of
        Inl e \<Rightarrow> (w, Raise e)
      | Inr rd \<Rightarrow>
          (case write_file w output_path (HtmlText rd) of
             Inl e \<Rightarrow> (w, Raise e)
           | Inr w1 \<Rightarrow>
               (log_to w1 INFO (''HTML report generated: '' @ output_path), Return ())))"

text \<open>
  \<^verbatim>\<open>_generate_pdf\<close> (lines 75-91). The HTML is generated outside the \<^verbatim>\<open>try\<close>; the
  conversion, the success record and the removal of the HTML file are inside it, and its
  handler catches every exception, logs two records and returns.
\<close>

definition pdf_failed :: "world \<Rightarrow> string \<Rightarrow> exn \<Rightarrow> world \<times> unit outcome" where
  "pdf_failed w html_path e =
     (log_to (log_to w ERROR (''Error generating PDF: '' @ exn_str e)) INFO
        (''HTML report available at: '' @ html_path),
      Return ())"

definition convert_pdf :: "env \<Rightarrow> world \<Rightarrow> string \<Rightarrow> string \<Rightarrow> exn + world" where
  "convert_pdf ev w html_path output_path =
     (case files w html_path of
        None \<Rightarrow> Inl (OSError html_path)
      | Some c \<Rightarrow>
          (case weasyprint ev c of
             Inl e \<Rightarrow> Inl e
           | Inr bytes \<Rightarrow> write_file w output_path (PdfBytes bytes)))"

definition generate_pdf :: "env \<Rightarrow> world \<Rightarrow> pydict \<Rightarrow> string \<Rightarrow> world \<times> unit outcome" where
  "generate_pdf ev w results output_path =
     (let html_path = str_replace output_path ''.pdf'' ''.html'' in
      case generate_html ev w results html_path of
        (w1, Raise e) \<Rightarrow> (w1, Raise e)
      | (w1, Return u) \<Rightarrow>
          (case convert_pdf ev w1 html_path output_path of
             Inl e \<Rightarrow> pdf_failed w1 html_path e
           | Inr w2 \<Rightarrow>
               (let w3 = log_to w2 INFO (''PDF report generated: '' @ output_path) in
                case unlink w3 html_path of
                  Inl e \<Rightarrow> pdf_failed w3 html_path e
                | Inr w4 \<Rightarrow> (w4, Return ()))))"

text \<open>\<^verbatim>\<open>generate\<close> (lines 25-41).\<close>

definition generate :: "env \<Rightarrow> world \<Rightarrow> pydict \<Rightarrow> string \<Rightarrow> string \<Rightarrow> world \<times> unit outcome" where
  "generate ev w results output_path format =
     (if format = ''json'' then generate_json w results output_path
      else if format = ''html'' then generate_html ev w results output_path
      else if format = ''pdf'' then generate_pdf ev w results output_path
      else (w, Raise (ValueError (''Unsupported format: '' @ format))))"

section \<open>HTTP client: the session and the retry policy\<close>


text \<open>
  \<^verbatim>\<open>urllib3.util.retry.Retry\<close> as constructed in lines 37-42. \<open>raise_on_status\<close> is not
  passed there, so it has the library's default, \<^verbatim>\<open>True\<close>.
\<close>

record retry =
  retry_total :: nat
  backoff_factor :: nat
  status_forcelist :: "nat list"
  allowed_methods :: "string list"
  raise_on_status :: bool

text \<open>
  \<^verbatim>\<open>session.headers\<close> is a case-insensitive dictionary: an entry is stored under the
  lower-cased name, with the name as last written and the value. A cookie is stored under
  its domain, path and name.
\<close>

type_synonym ci_dict = "(string \<times> (string \<times> string)) list"

type_synonym cookie_jar = "((string \<times> string \<times> string) \<times> string) list"

fun ci_set :: "ci_dict \<Rightarrow> string \<Rightarrow> string \<Rightarrow> ci_dict" where
  "ci_set [] k v = [(lower k, (k, v))]"
| "ci_set (e # es) k v =
     (if fst e = lower k then (lower k, (k, v)) # es else e # ci_set es k v)"

fun ci_update :: "ci_dict \<Rightarrow> (string \<times> string) list \<Rightarrow> ci_dict" where
  "ci_update d [] = d"
| "ci_update d (kv # kvs) = ci_update (ci_set d (fst kv) (snd kv)) kvs"

definition ci_get :: "ci_dict \<Rightarrow> string \<Rightarrow> string option" where
  "ci_get d k = map_option snd (map_of d (lower k))"










section \<open>HTTP client: requests, the retry loop and the four call operations\<close>

record response =
  status_code :: nat
  resp_headers :: "(string \<times> string) list"
  resp_url :: string
  set_cookies :: "((string \<times> string \<times> string) \<times> string) list"

text \<open>A request as the adapter puts it on the wire, with the settings it is sent under.\<close>

record request =
  req_method :: string
  req_url :: string
  req_headers :: ci_dict
  req_cookies :: cookie_jar
  req_params :: pyval
  req_data :: pyval
  req_json :: pyval
  req_timeout :: int
  req_verify :: bool
  req_allow_redirects :: bool
  req_proxies :: "(string \<times> string) list"

datatype failure = ConnectFailed | ConnectTimedOut | ReadTimedOut | TLSFailed | ProxyFailed

datatype wire_result = WResp response | WFail failure

type_synonym wire = "nat \<Rightarrow> request \<Rightarrow> wire_result"

text \<open>
  \<^verbatim>\<open>Retry.is_retry\<close>: a status of the force list is retried for an allowed method, and so
  is a status 413, 429 or 503 that comes with a \<^verbatim>\<open>Retry-After\<close> header while retries are
  left.
\<close>

definition is_retry :: "retry \<Rightarrow> nat \<Rightarrow> string \<Rightarrow> response \<Rightarrow> bool" where
  "is_retry rt remaining m r =
     (m \<in> set (allowed_methods rt)
      \<and> (status_code r \<in> set (status_forcelist rt)
         \<or> (remaining \<noteq> 0 \<and> ci_get (ci_update [] (resp_headers r)) ''Retry-After'' \<noteq> None
            \<and> status_code r \<in> {413, 429, 503})))"

text \<open>
  The exception of \<^verbatim>\<open>requests\<close> that an exhausted retry policy ends in
  (\<^verbatim>\<open>HTTPAdapter.send\<close>): each is a \<^verbatim>\<open>RequestException\<close>.
\<close>

definition exhausted_by :: "failure \<Rightarrow> exn" where
  "exhausted_by f =
     (case f of
        ConnectFailed \<Rightarrow> RequestException ConnectionError
      | ConnectTimedOut \<Rightarrow> RequestException ConnectTimeout
      | ReadTimedOut \<Rightarrow> RequestException ConnectionError
      | TLSFailed \<Rightarrow> RequestException SSLError
      | ProxyFailed \<Rightarrow> RequestException ProxyError)"

definition unretried :: "failure \<Rightarrow> exn" where
  "unretried f =
     (case f of
        ReadTimedOut \<Rightarrow> RequestException ReadTimeout
      | _ \<Rightarrow> exhausted_by f)"

text \<open>
  The loop of \<^verbatim>\<open>urlopen\<close> under a \<^verbatim>\<open>Retry\<close> with only \<open>total\<close> set: every attempt is
  recorded in \<open>sent\<close>; a failed attempt, or a response whose status is to be retried,
  takes one retry from those remaining; with none remaining the loop ends in the
  exception. A failure while reading is retried for the allowed methods only.
\<close>

fun send_with_retries ::
  "wire \<Rightarrow> retry \<Rightarrow> request \<Rightarrow> nat \<Rightarrow> request list \<Rightarrow> request list \<times> (exn + response)" where
  "send_with_retries w rt q 0 sent =
     (case w (length sent) q of
        WResp r \<Rightarrow>
          (if is_retry rt 0 (req_method q) r
           then (sent @ [q], if raise_on_status rt then Inl (RequestException RetryError) else Inr r)
           else (sent @ [q], Inr r))
      | WFail f \<Rightarrow>
          (if f = ReadTimedOut \<and> req_method q \<notin> set (allowed_methods rt)
           then (sent @ [q], Inl (unretried f))
           else (sent @ [q], Inl (exhausted_by f))))"
| "send_with_retries w rt q (Suc n) sent =
     (case w (length sent) q of
        WResp r \<Rightarrow>
          (if is_retry rt (Suc n) (req_method q) r
           then send_with_retries w rt q n (sent @ [q])
           else (sent @ [q], Inr r))
      | WFail f \<Rightarrow>
          (if f = ReadTimedOut \<and> req_method q \<notin> set (allowed_methods rt)
           then (sent @ [q], Inl (unretried f))
           else send_with_retries w rt q n (sent @ [q])))"








text \<open>
  What a call leaves behind besides its result: the requests put on the wire so far and
  the records given to the logger.
\<close>

record net =
  sent :: "request list"
  netlog :: "(level \<times> string) list"











section \<open>Conditions that the statements are made under\<close>







section \<open>A scan result, a file system and an environment to evaluate on\<close>

definition example_vulns :: "pydict list" where
  "example_vulns =
     [[(KStr ''type'', PStr ''sqli''), (KStr ''severity'', PStr ''low'')],
      [(KStr ''type'', PStr ''banner'')],
      [(KStr ''type'', PStr ''rce''), (KStr ''severity'', PStr ''CRITICAL'')],
      [(KStr ''type'', PStr ''csrf''), (KStr ''severity'', PStr ''low'')]]"

definition example_results :: pydict where
  "example_results =
     [(KStr ''target'', PStr ''http://target.example''),
      (KStr ''duration'', PStr ''12s''),
      (KStr ''vulnerabilities'', PList (map PDict example_vulns)),
      (KStr ''severity_summary'', PDict [(KStr ''critical'', PInt 1), (KStr ''low'', PInt 2)]),
      (KStr ''urls_crawled'', PInt 7)]"

definition example_world :: world where
  "example_world = \<lparr>files = Map.empty, denied = {''/missing/report.json''}, logged = []\<rparr>"

definition example_env :: env where
  "example_env = \<lparr>now = ''2024-01-01 00:00:00'', weasyprint = (\<lambda>c. Inr ''%PDF-1.7'')\<rparr>"


section \<open>A client, a network state and three networks to evaluate on\<close>







section \<open>Properties of the sort\<close>

lemma severity_key_rank: "severity_is_str x \<Longrightarrow> severity_key x = Inr (vuln_rank x)"
  by (auto simp: severity_is_str_def severity_key_def vuln_rank_def dict_get_default_def
      split: option.splits pyval.splits)

lemma keys_of_total:
  "\<forall>x\<in>set xs. f x = Inr (g x) \<Longrightarrow> keys_of f xs = Inr (map (\<lambda>x. (g x, x)) xs)"
  by (induction xs) auto











section \<open>The severity rank\<close>

lemma severity_rank_table:
  "severity_rank s =
     (if lower s = ''critical'' then 0 else if lower s = ''high'' then 1
      else if lower s = ''medium'' then 2 else if lower s = ''low'' then 3
      else if lower s = ''info'' then 4 else 5)"
  by (simp add: severity_rank_def severity_order_def)

lemma lower_info: "lower ''info'' = ''info''"
  by (simp add: lower_def lower_char_def)

text \<open>
  C10. The rank a record is sorted by does not depend on the case of its severity; a record
  with a string severity gets the rank of the lower-cased name (0 to 4 for critical, high,
  medium, low, info, and 5 otherwise); a record with no severity field gets rank 4, that of
  info; and rank 5 is given exactly to the records whose severity is a string that is not
  one of the five names in any case.
\<close>

theorem severity_rank_case_insensitive:
  "(\<forall>s t. lower s = lower t \<longrightarrow> severity_rank s = severity_rank t)
   \<and> (\<forall>s. map_of x (KStr ''severity'') = Some (PStr s) \<longrightarrow>
          severity_key x =
            Inr (if lower s = ''critical'' then 0 else if lower s = ''high'' then 1
                 else if lower s = ''medium'' then 2 else if lower s = ''low'' then 3
                 else if lower s = ''info'' then 4 else 5))
   \<and> (map_of x (KStr ''severity'') = None \<longrightarrow> severity_key x = Inr 4)
   \<and> (severity_key x = Inr 5 \<longleftrightarrow>
        (\<exists>s. map_of x (KStr ''severity'') = Some (PStr s)
           \<and> lower s \<notin> {''critical'', ''high'', ''medium'', ''low'', ''info''}))"
proof (intro conjI allI impI)
  fix s t :: string
  assume "lower s = lower t"
  then show "severity_rank s = severity_rank t"
    by (simp add: severity_rank_def)
next
  fix s
  assume "map_of x (KStr ''severity'') = Some (PStr s)"
  then show "severity_key x =
            Inr (if lower s = ''critical'' then 0 else if lower s = ''high'' then 1
                 else if lower s = ''medium'' then 2 else if lower s = ''low'' then 3
                 else if lower s = ''info'' then 4 else 5)"
    by (simp add: severity_key_def dict_get_default_def severity_rank_table)
next
  assume "map_of x (KStr ''severity'') = None"
  then show "severity_key x = Inr 4"
    by (simp add: severity_key_def dict_get_default_def severity_rank_table lower_info)
next
  show "severity_key x = Inr 5 \<longleftrightarrow>
        (\<exists>s. map_of x (KStr ''severity'') = Some (PStr s)
           \<and> lower s \<notin> {''critical'', ''high'', ''medium'', ''low'', ''info''})"
    by (auto simp: severity_key_def dict_get_default_def severity_rank_table lower_info
        split: option.splits pyval.splits if_splits)
qed

theorem severity_rank_case_insensitive_witness:
  "severity_key [(KStr ''type'', PStr ''xss''), (KStr ''severity'', PStr ''CRITICAL'')] = Inr 0
   \<and> severity_key [(KStr ''type'', PStr ''xss'')] = Inr 4
   \<and> severity_key [(KStr ''severity'', PStr ''Urgent'')] = Inr 5
   \<and> severity_rank ''High'' = severity_rank ''hIGH''"
proof -
  note t = severity_rank_case_insensitive
  have 1: "severity_key [(KStr ''type'', PStr ''xss''), (KStr ''severity'', PStr ''CRITICAL'')] = Inr 0"
    using t [of "[(KStr ''type'', PStr ''xss''), (KStr ''severity'', PStr ''CRITICAL'')]",
        THEN conjunct2, THEN conjunct1, rule_format, of "''CRITICAL''"]
    by (simp add: lower_def lower_char_def)
  have 2: "severity_key [(KStr ''type'', PStr ''xss'')] = Inr 4"
    using t [of "[(KStr ''type'', PStr ''xss'')]", THEN conjunct2, THEN conjunct2, THEN conjunct1]
    by simp
  have 3: "severity_key [(KStr ''severity'', PStr ''Urgent'')] = Inr 5"
    using t [of "[(KStr ''severity'', PStr ''Urgent'')]",
        THEN conjunct2, THEN conjunct1, rule_format, of "''Urgent''"]
    by (simp add: lower_def lower_char_def)
  have 4: "severity_rank ''High'' = severity_rank ''hIGH''"
    using t [of "[]", THEN conjunct1, rule_format, of "''High''" "''hIGH''"]
    by (simp add: lower_def lower_char_def)
  from 1 2 3 4 show ?thesis by blast
qed

section \<open>The order of the HTML report\<close>

lemma vuln_key_dict: "severity_is_str v \<Longrightarrow> vuln_key (PDict v) = Inr (vuln_rank v)"
  by (simp add: vuln_key_def severity_key_rank)

lemma keys_of_records:
  "\<forall>v\<in>set vs. severity_is_str v \<Longrightarrow>
   keys_of vuln_key (map PDict vs) = Inr (map (apsnd PDict) (map (\<lambda>v. (vuln_rank v, v)) vs))"
  by (induction vs) (auto simp: vuln_key_dict)

lemma insert_keyed_apsnd:
  "insert_keyed (apsnd f p) (map (apsnd f) ps) = map (apsnd f) (insert_keyed p ps)"
  by (induction ps) auto

lemma sort_keyed_apsnd: "sort_keyed (map (apsnd f) ps) = map (apsnd f) (sort_keyed ps)"
  by (induction ps) (auto simp: insert_keyed_apsnd)

lemma map_snd_apsnd: "map snd (map (apsnd f) ps) = map f (map snd ps)"
  by (induction ps) auto

lemma sort_vulnerabilities_records:
  assumes "\<forall>v\<in>set vs. severity_is_str v"
  shows "sort_vulnerabilities (PList (map PDict vs)) =
           Inr (map PDict (map snd (sort_keyed (map (\<lambda>v. (vuln_rank v, v)) vs))))"
  by (simp add: sort_vulnerabilities_def py_sorted_def py_iter_def keys_of_records [OF assms]
      sort_keyed_apsnd map_snd_apsnd del: map_map)

lemma generate_summary_ok:
  assumes "dict_get_default results (KStr ''vulnerabilities'') (PList []) = PList xs"
    and "dict_get_default results (KStr ''severity_summary'') (PDict []) = PDict sc"
  shows "\<exists>sm. generate_summary results = Inr sm"
  using assms by (simp add: generate_summary_def py_len_def)



section \<open>Format validation\<close>

lemma dump_raises_TypeError:
  "(dump v = Inl e \<longrightarrow> (\<exists>m. e = TypeError m))"
  "(dump_list xs = Inl e \<longrightarrow> (\<exists>m. e = TypeError m))"
  "(dump_items d = Inl e \<longrightarrow> (\<exists>m. e = TypeError m))"
  by (induction v and xs and d rule: dump_dump_list_dump_items.induct)
    (auto simp: dump_key_def split: sum.splits pykey.splits)

lemma generate_json_no_ValueError: "snd (generate_json w results p) \<noteq> Raise (ValueError m)"
  using dump_raises_TypeError(3) [of results "ValueError m"]
  by (auto simp: generate_json_def write_file_def split: sum.splits)

lemma sort_vulnerabilities_no_ValueError:
  "sort_vulnerabilities v \<noteq> Inl (ValueError m)"
proof -
  have k: "keys_of vuln_key xs \<noteq> Inl (ValueError m)" for xs
    by (induction xs)
      (auto simp: vuln_key_def severity_key_def split: sum.splits pyval.splits)
  show ?thesis
    using k by (auto simp: sort_vulnerabilities_def py_sorted_def py_iter_def
        split: sum.splits pyval.splits)
qed

lemma build_report_data_no_ValueError: "build_report_data ev results \<noteq> Inl (ValueError m)"
  using sort_vulnerabilities_no_ValueError
  by (auto simp: build_report_data_def generate_summary_def py_len_def
      split: sum.splits pyval.splits)

lemma generate_html_no_ValueError: "snd (generate_html ev w results p) \<noteq> Raise (ValueError m)"
  using build_report_data_no_ValueError [of ev results m]
  by (auto simp: generate_html_def write_file_def split: sum.splits)

lemma generate_pdf_no_ValueError: "snd (generate_pdf ev w results p) \<noteq> Raise (ValueError m)"
  using generate_html_no_ValueError [of ev w results "str_replace p ''.pdf'' ''.html''" m]
  by (auto simp: generate_pdf_def pdf_failed_def Let_def split: sum.splits prod.splits outcome.splits)

text \<open>
  C3. For every results structure and output path, \<open>generate\<close> with a format other than
  json, html and pdf raises the format-validation failure (a \<^verbatim>\<open>ValueError\<close>) and leaves
  the file system and the log as they were, so that no file exists at the output path
  afterwards unless one did before; with one of the three formats it raises no
  \<^verbatim>\<open>ValueError\<close>.
\<close>

theorem generate_unsupported_format:
  "(format \<notin> {''json'', ''html'', ''pdf''} \<longrightarrow>
      generate ev w results output_path format
        = (w, Raise (ValueError (''Unsupported format: '' @ format)))
      \<and> (files w output_path = None \<longrightarrow>
           files (fst (generate ev w results output_path format)) output_path = None))
   \<and> (format \<in> {''json'', ''html'', ''pdf''} \<longrightarrow>
      (\<forall>m. snd (generate ev w results output_path format) \<noteq> Raise (ValueError m)))"
proof (intro conjI impI allI)
  assume "format \<notin> {''json'', ''html'', ''pdf''}"
  then show "generate ev w results output_path format
        = (w, Raise (ValueError (''Unsupported format: '' @ format)))"
    by (simp add: generate_def)
next
  assume "format \<notin> {''json'', ''html'', ''pdf''}" and "files w output_path = None"
  then show "files (fst (generate ev w results output_path format)) output_path = None"
    by (simp add: generate_def)
next
  fix m
  assume "format \<in> {''json'', ''html'', ''pdf''}"
  then consider "format = ''json''" | "format = ''html''" | "format = ''pdf''" by blast
  then show "snd (generate ev w results output_path format) \<noteq> Raise (ValueError m)"
  proof cases
    case 1
    then show ?thesis by (simp add: generate_def generate_json_no_ValueError)
  next
    case 2
    then show ?thesis by (simp add: generate_def generate_html_no_ValueError)
  next
    case 3
    then show ?thesis by (simp add: generate_def generate_pdf_no_ValueError)
  qed
qed

theorem generate_unsupported_format_witness:
  "generate example_env example_world example_results ''report.txt'' ''bogus''
     = (example_world, Raise (ValueError ''Unsupported format: bogus''))
   \<and> files (fst (generate example_env example_world example_results ''report.txt'' ''bogus''))
        ''report.txt'' = None
   \<and> (\<forall>m. snd (generate example_env example_world example_results ''report.json'' ''json'')
          \<noteq> Raise (ValueError m))"
proof -
  note t = generate_unsupported_format
  have a: "''bogus'' \<notin> {''json'', ''html'', ''pdf''}" by simp
  have b: "files example_world ''report.txt'' = None" by (simp add: example_world_def)
  have c: "''json'' \<in> {''json'', ''html'', ''pdf''}" by simp
  have 1: "generate example_env example_world example_results ''report.txt'' ''bogus''
     = (example_world, Raise (ValueError ''Unsupported format: bogus''))"
    using t [of "''bogus''" example_env example_world example_results "''report.txt''",
        THEN conjunct1, rule_format, OF a, THEN conjunct1] by simp
  have 2: "files (fst (generate example_env example_world example_results ''report.txt'' ''bogus''))
        ''report.txt'' = None"
    using t [of "''bogus''" example_env example_world example_results "''report.txt''",
        THEN conjunct1, rule_format, OF a, THEN conjunct2, rule_format, OF b] .
  have 3: "\<forall>m. snd (generate example_env example_world example_results ''report.json'' ''json'')
          \<noteq> Raise (ValueError m)"
    using t [of "''json''" example_env example_world example_results "''report.json''",
        THEN conjunct2, rule_format, OF c] by blast
  from 1 2 3 show ?thesis by blast
qed

section \<open>Writing the JSON and HTML reports\<close>








lemma example_report_data: "\<exists>rd. build_report_data example_env example_results = Inr rd"
proof -
  have 1: "dict_get_default example_results (KStr ''vulnerabilities'') (PList [])
             = PList (map PDict example_vulns)"
    by (simp add: example_results_def dict_get_default_def)
  have 2: "\<forall>v\<in>set example_vulns. severity_is_str v"
    by (simp add: example_vulns_def severity_is_str_def)
  have 3: "dict_get_default example_results (KStr ''severity_summary'') (PDict [])
             = PDict [(KStr ''critical'', PInt 1), (KStr ''low'', PInt 2)]"
    by (simp add: example_results_def dict_get_default_def)
  obtain sm where "generate_summary example_results = Inr sm"
    using generate_summary_ok [OF 1 3] by blast
  then show ?thesis
    using sort_vulnerabilities_records [OF 2] 1 by (simp add: build_report_data_def)
qed


text \<open>
  C4 at the output path \<^verbatim>\<open>report\<close>, which does not contain \<^verbatim>\<open>.pdf\<close>: the path of the
  temporary HTML file, \<^verbatim>\<open>output_path.replace('.pdf', '.html')\<close>, is then the output
  path itself, the conversion overwrites the HTML with the PDF, and the clean-up of the
  temporary HTML removes the PDF. The call returns, both success records are logged, and
  no file is left at the output path.
\<close>

theorem generate_pdf_deletes_report:
  "snd (generate example_env example_world example_results ''report'' ''pdf'') = Return ()
   \<and> files (fst (generate example_env example_world example_results ''report'' ''pdf'')) ''report''
       = None
   \<and> logged (fst (generate example_env example_world example_results ''report'' ''pdf''))
       = [(INFO, ''HTML report generated: report''), (INFO, ''PDF report generated: report'')]"
proof -
  obtain rd where rd: "build_report_data example_env example_results = Inr rd"
    using example_report_data by blast
  have p: "str_replace ''report'' ''.pdf'' ''.html'' = ''report''"
    by (simp add: str_replace_def)
  have d: "''report'' \<notin> denied example_world" by (simp add: example_world_def)
  have w: "weasyprint example_env (HtmlText rd) = Inr ''%PDF-1.7''"
    by (simp add: example_env_def)
  show ?thesis
    using rd d w
    by (simp add: generate_def generate_pdf_def p generate_html_def write_file_def
        convert_pdf_def unlink_def log_to_def example_world_def Let_def)
qed

text \<open>
  What \<^verbatim>\<open>_generate_pdf\<close> does otherwise: when the path of the temporary HTML differs from
  the output path and the conversion succeeds, the PDF is at the output path and the HTML
  is gone; when the conversion fails, the HTML stays where it was written, the failure is
  logged and the call returns; and when the two paths are the same, nothing is left.
\<close>

lemma generate_pdf_converted:
  assumes "str_replace output_path ''.pdf'' ''.html'' = html_path"
    and "html_path \<noteq> output_path"
    and "html_path \<notin> denied w" and "output_path \<notin> denied w"
    and "build_report_data ev results = Inr rd"
    and "weasyprint ev (HtmlText rd) = Inr bytes"
  shows "snd (generate ev w results output_path ''pdf'') = Return ()
     \<and> files (fst (generate ev w results output_path ''pdf'')) output_path = Some (PdfBytes bytes)
     \<and> files (fst (generate ev w results output_path ''pdf'')) html_path = None"
  using assms
  by (simp add: generate_def generate_pdf_def generate_html_def write_file_def
      convert_pdf_def unlink_def log_to_def Let_def)

lemma generate_pdf_conversion_failed:
  assumes "str_replace output_path ''.pdf'' ''.html'' = html_path"
    and "html_path \<notin> denied w"
    and "build_report_data ev results = Inr rd"
    and "weasyprint ev (HtmlText rd) = Inl e"
  shows "snd (generate ev w results output_path ''pdf'') = Return ()
     \<and> files (fst (generate ev w results output_path ''pdf'')) html_path = Some (HtmlText rd)
     \<and> logged (fst (generate ev w results output_path ''pdf'')) =
         logged w @ [(INFO, ''HTML report generated: '' @ html_path),
                     (ERROR, ''Error generating PDF: '' @ exn_str e),
                     (INFO, ''HTML report available at: '' @ html_path)]"
  using assms
  by (simp add: generate_def generate_pdf_def generate_html_def write_file_def
      convert_pdf_def pdf_failed_def log_to_def Let_def)

lemma generate_pdf_same_path:
  assumes "str_replace output_path ''.pdf'' ''.html'' = output_path"
    and "output_path \<notin> denied w"
    and "build_report_data ev results = Inr rd"
    and "weasyprint ev (HtmlText rd) = Inr bytes"
  shows "snd (generate ev w results output_path ''pdf'') = Return ()
     \<and> files (fst (generate ev w results output_path ''pdf'')) output_path = None"
  using assms
  by (simp add: generate_def generate_pdf_def generate_html_def write_file_def
      convert_pdf_def unlink_def log_to_def Let_def)

section \<open>The JSON report read back\<close>








section \<open>Properties of the retry loop and of the guarded call\<close>




lemma send_with_retries_failing:
  assumes "\<forall>k q. \<exists>f. w k q = WFail f"
    and "req_method q \<in> set (allowed_methods rt)"
  shows "\<exists>k. send_with_retries w rt q n sent0
           = (sent0 @ replicate (Suc n) q, Inl (RequestException k))"
proof (induction n arbitrary: sent0)
  case 0
  obtain f where "w (length sent0) q = WFail f" using assms(1) by blast
  then show ?case using assms(2) by (cases f) (simp_all add: exhausted_by_def)
next
  case (Suc n)
  obtain f where "w (length sent0) q = WFail f" using assms(1) by blast
  then show ?case using assms(2) Suc [of "sent0 @ [q]"]
    by (simp add: replicate_app_Cons_same)
qed






section \<open>The never-raise contract of the call operations\<close>








section \<open>Retries on a retryable status\<close>









section \<open>Precedence of headers\<close>











section \<open>The configuration across calls\<close>










end
